theory Spec2Isabelle
  imports Complex_Main
begin

section \<open>Python values, errors and the two enumerations\<close>

text \<open>
  The timer engine of \<^verbatim>\<open>src/misc/timer.py\<close> keeps its configuration and its action
  parameters in untyped dictionaries. The values that can stand there are modelled by
  \<open>pyval\<close>: the JSON-like values, and the \<^verbatim>\<open>datetime.time\<close> and \<^verbatim>\<open>datetime.date\<close> objects
  that \<^verbatim>\<open>TimerApp.get_timer_config\<close> stores for a scheduled timer. A dictionary is an
  association list in insertion order with string keys; a date is its proleptic
  Gregorian ordinal (\<^verbatim>\<open>date.toordinal()\<close>); a time keeps hour, minute and second,
  the attributes the engine reads.
  Floating point numbers are outside the model.
\<close>

datatype pyval =
    PNone
  | PBool bool
  | PInt int
  | PStr string
  | PList "pyval list"
  | PDict "(string \<times> pyval) list"
  | PTime nat nat nat
  | PDate int

datatype py_error =
    TypeError | ValueError | KeyError | AttributeError | ZeroDivisionError

datatype TimerType =
    COUNTDOWN | INTERVAL | SCHEDULED | CONDITIONAL | CHAIN | POMODORO | STOPWATCH

datatype ActionType =
    NOTIFICATION | SOUND | COMMAND | POPUP | FILE_WRITE | HTTP_REQUEST

fun TimerType_value :: "TimerType \<Rightarrow> string" where
  "TimerType_value COUNTDOWN = ''countdown''"
| "TimerType_value INTERVAL = ''interval''"
| "TimerType_value SCHEDULED = ''scheduled''"
| "TimerType_value CONDITIONAL = ''conditional''"
| "TimerType_value CHAIN = ''chain''"
| "TimerType_value POMODORO = ''pomodoro''"
| "TimerType_value STOPWATCH = ''stopwatch''"

fun ActionType_value :: "ActionType \<Rightarrow> string" where
  "ActionType_value NOTIFICATION = ''notification''"
| "ActionType_value SOUND = ''sound''"
| "ActionType_value COMMAND = ''command''"
| "ActionType_value POPUP = ''popup''"
| "ActionType_value FILE_WRITE = ''file_write''"
| "ActionType_value HTTP_REQUEST = ''http_request''"

text \<open>
  \<^verbatim>\<open>TimerType(x)\<close> and \<^verbatim>\<open>ActionType(x)\<close>: the member whose value is \<open>x\<close>, and
  \<^verbatim>\<open>ValueError\<close> for every other object.
\<close>

definition TimerType_of :: "pyval \<Rightarrow> py_error + TimerType" where
  "TimerType_of v =
     (if v = PStr ''countdown'' then Inr COUNTDOWN
      else if v = PStr ''interval'' then Inr INTERVAL
      else if v = PStr ''scheduled'' then Inr SCHEDULED
      else if v = PStr ''conditional'' then Inr CONDITIONAL
      else if v = PStr ''chain'' then Inr CHAIN
      else if v = PStr ''pomodoro'' then Inr POMODORO
      else if v = PStr ''stopwatch'' then Inr STOPWATCH
      else Inl ValueError)"

definition ActionType_of :: "pyval \<Rightarrow> py_error + ActionType" where
  "ActionType_of v =
     (if v = PStr ''notification'' then Inr NOTIFICATION
      else if v = PStr ''sound'' then Inr SOUND
      else if v = PStr ''command'' then Inr COMMAND
      else if v = PStr ''popup'' then Inr POPUP
      else if v = PStr ''file_write'' then Inr FILE_WRITE
      else if v = PStr ''http_request'' then Inr HTTP_REQUEST
      else Inl ValueError)"

record TimerAction =
  action_type :: ActionType
  parameters :: pyval

subsection \<open>The operations of Python the engine applies to these values\<close>

text \<open>\<^verbatim>\<open>d.get(key, default)\<close>: only a dictionary has the method.\<close>

fun dict_get :: "pyval \<Rightarrow> string \<Rightarrow> pyval \<Rightarrow> py_error + pyval" where
  "dict_get (PDict kvs) k d = Inr (case map_of kvs k of Some v \<Rightarrow> v | None \<Rightarrow> d)"
| "dict_get _ k d = Inl AttributeError"

text \<open>\<^verbatim>\<open>v[key]\<close> with a string key.\<close>

fun getitem :: "pyval \<Rightarrow> string \<Rightarrow> py_error + pyval" where
  "getitem (PDict kvs) k = (case map_of kvs k of Some v \<Rightarrow> Inr v | None \<Rightarrow> Inl KeyError)"
| "getitem _ k = Inl TypeError"

text \<open>
  \<^verbatim>\<open>for x in v\<close>: a list gives its elements, a dictionary its keys, a string its
  characters; nothing else is iterable.
\<close>

fun py_iter :: "pyval \<Rightarrow> py_error + pyval list" where
  "py_iter (PList xs) = Inr xs"
| "py_iter (PDict kvs) = Inr (map (\<lambda>kv. PStr (fst kv)) kvs)"
| "py_iter (PStr s) = Inr (map (\<lambda>c. PStr [c]) s)"
| "py_iter _ = Inl TypeError"

text \<open>A value used as a number: \<^verbatim>\<open>bool\<close> is a subclass of \<^verbatim>\<open>int\<close>.\<close>

fun as_num :: "pyval \<Rightarrow> py_error + int" where
  "as_num (PInt n) = Inr n"
| "as_num (PBool b) = Inr (if b then 1 else 0)"
| "as_num _ = Inl TypeError"

text \<open>\<^verbatim>\<open>bool(v)\<close>; a time and a date are always true.\<close>

fun truthy :: "pyval \<Rightarrow> bool" where
  "truthy PNone = False"
| "truthy (PBool b) = b"
| "truthy (PInt n) = (n \<noteq> 0)"
| "truthy (PStr s) = (s \<noteq> [])"
| "truthy (PList xs) = (xs \<noteq> [])"
| "truthy (PDict kvs) = (kvs \<noteq> [])"
| "truthy (PTime h m s) = True"
| "truthy (PDate d) = True"

section \<open>The timer engine\<close>

text \<open>
  \<^verbatim>\<open>class ComplexTimer\<close>. The attributes that \<^verbatim>\<open>_init_timer_specifics\<close> sets for one
  mode only are fields of the one record; for the other modes they hold \<open>PNone\<close> (or
  the initial value of a counter) and are never read, because \<^verbatim>\<open>_run\<close> dispatches on
  \<open>timer_type\<close>. The thread and the stop event are not fields: the run of the worker
  is a function of the time the stop event is set (below). \<^verbatim>\<open>active\<close> and
  \<^verbatim>\<open>created_at\<close> are written once and never read by the engine, and are left out.
\<close>

record ComplexTimer =
  name :: string
  timer_type :: TimerType
  config :: pyval
  last_triggered :: "rat option"
  trigger_count :: nat
  actions :: "TimerAction list"
  duration :: pyval
  remaining_time :: pyval
  interval :: pyval
  max_repeats :: pyval
  schedule_times :: pyval
  days_of_week :: pyval
  date_specific :: pyval
  condition_script :: pyval
  check_interval :: pyval
  chain_configs :: pyval
  current_chain_index :: nat
  work_duration :: pyval
  break_duration :: pyval
  long_break_duration :: pyval
  cycles_until_long_break :: pyval
  current_cycle :: int
  is_work_period :: bool
  elapsed_time :: rat
  start_time :: "rat option"

definition blank_timer :: "string \<Rightarrow> TimerType \<Rightarrow> pyval \<Rightarrow> ComplexTimer" where
  "blank_timer n ty cfg =
     \<lparr> name = n, timer_type = ty, config = cfg, last_triggered = None,
       trigger_count = 0, actions = [],
       duration = PNone, remaining_time = PNone, interval = PNone, max_repeats = PNone,
       schedule_times = PNone, days_of_week = PNone, date_specific = PNone,
       condition_script = PNone, check_interval = PNone, chain_configs = PNone,
       current_chain_index = 0, work_duration = PNone, break_duration = PNone,
       long_break_duration = PNone, cycles_until_long_break = PNone,
       current_cycle = 0, is_work_period = True, elapsed_time = 0, start_time = None \<rparr>"

text \<open>
  \<^verbatim>\<open>_init_timer_specifics\<close>: every mode but the stopwatch reads its attributes with
  \<^verbatim>\<open>self.config.get\<close>, which raises \<^verbatim>\<open>AttributeError\<close> when the configuration is not a
  dictionary. The values are stored as they are, whatever their type.
\<close>

definition init_timer_specifics :: "ComplexTimer \<Rightarrow> py_error + ComplexTimer" where
  "init_timer_specifics t =
     (case timer_type t of
        COUNTDOWN \<Rightarrow>
          (case dict_get (config t) ''duration'' (PInt 0) of
             Inl e \<Rightarrow> Inl e
           | Inr d \<Rightarrow> Inr (t\<lparr>duration := d, remaining_time := d\<rparr>))
      | INTERVAL \<Rightarrow>
          (case dict_get (config t) ''interval'' (PInt 60) of
             Inl e \<Rightarrow> Inl e
           | Inr i \<Rightarrow>
          (case dict_get (config t) ''max_repeats'' (PInt (- 1)) of
             Inl e \<Rightarrow> Inl e
           | Inr m \<Rightarrow> Inr (t\<lparr>interval := i, max_repeats := m\<rparr>)))
      | SCHEDULED \<Rightarrow>
          (case dict_get (config t) ''schedule_times'' (PList []) of
             Inl e \<Rightarrow> Inl e
           | Inr st \<Rightarrow>
          (case dict_get (config t) ''days_of_week'' (PList (map PInt [0, 1, 2, 3, 4, 5, 6])) of
             Inl e \<Rightarrow> Inl e
           | Inr dw \<Rightarrow>
          (case dict_get (config t) ''date_specific'' PNone of
             Inl e \<Rightarrow> Inl e
           | Inr ds \<Rightarrow>
               Inr (t\<lparr>schedule_times := st, days_of_week := dw, date_specific := ds\<rparr>))))
      | CONDITIONAL \<Rightarrow>
          (case dict_get (config t) ''condition_script'' (PStr []) of
             Inl e \<Rightarrow> Inl e
           | Inr cs \<Rightarrow>
          (case dict_get (config t) ''check_interval'' (PInt 30) of
             Inl e \<Rightarrow> Inl e
           | Inr ci \<Rightarrow> Inr (t\<lparr>condition_script := cs, check_interval := ci\<rparr>)))
      | CHAIN \<Rightarrow>
          (case dict_get (config t) ''chain_configs'' (PList []) of
             Inl e \<Rightarrow> Inl e
           | Inr cc \<Rightarrow> Inr (t\<lparr>chain_configs := cc, current_chain_index := 0\<rparr>))
      | POMODORO \<Rightarrow>
          (case dict_get (config t) ''work_duration'' (PInt (25 * 60)) of
             Inl e \<Rightarrow> Inl e
           | Inr w \<Rightarrow>
          (case dict_get (config t) ''break_duration'' (PInt (5 * 60)) of
             Inl e \<Rightarrow> Inl e
           | Inr b \<Rightarrow>
          (case dict_get (config t) ''long_break_duration'' (PInt (15 * 60)) of
             Inl e \<Rightarrow> Inl e
           | Inr l \<Rightarrow>
          (case dict_get (config t) ''cycles_until_long_break'' (PInt 4) of
             Inl e \<Rightarrow> Inl e
           | Inr c \<Rightarrow>
               Inr (t\<lparr>work_duration := w, break_duration := b, long_break_duration := l,
                      cycles_until_long_break := c, current_cycle := 0,
                      is_work_period := True\<rparr>)))))
      | STOPWATCH \<Rightarrow> Inr (t\<lparr>elapsed_time := 0, start_time := None\<rparr>))"

text \<open>\<^verbatim>\<open>ComplexTimer(name, timer_type, config)\<close>.\<close>

definition new_timer :: "string \<Rightarrow> TimerType \<Rightarrow> pyval \<Rightarrow> py_error + ComplexTimer" where
  "new_timer n ty cfg = init_timer_specifics (blank_timer n ty cfg)"

definition add_action :: "TimerAction \<Rightarrow> ComplexTimer \<Rightarrow> ComplexTimer" where
  "add_action a t = t\<lparr>actions := actions t @ [a]\<rparr>"

text \<open>The engine after \<^verbatim>\<open>add_action\<close> for each action of the list, in order.\<close>

definition with_actions :: "ComplexTimer \<Rightarrow> TimerAction list \<Rightarrow> ComplexTimer" where
  "with_actions tm acts = foldl (\<lambda>t a. add_action a t) tm acts"

section \<open>The registry\<close>

text \<open>
  \<^verbatim>\<open>class TimerManager\<close>: \<open>timers\<close> is the dictionary from names to engines in insertion
  order, \<open>callbacks\<close> the subscribers. A subscriber is a function of the state \<open>'w\<close> it
  works on (the front end): it returns the new state and, when it raises an exception
  of class \<^verbatim>\<open>Exception\<close>, that exception. The three last fields are the account of what
  the registry did to the outside: the positions (in \<open>callbacks\<close>) of the subscribers
  it called, in call order; the reports it printed; the names of the engines whose
  \<^verbatim>\<open>stop()\<close> it called.
\<close>

datatype report =
    CallbackError py_error
  | LoadError py_error
  | TimerError string py_error

type_synonym 'w callback = "'w \<Rightarrow> py_error option \<times> 'w"

record 'w TimerManager =
  timers :: "(string \<times> ComplexTimer) list"
  callbacks :: "'w callback list"
  world :: 'w
  invoked :: "nat list"
  printed :: "report list"
  stopped :: "string list"

definition new_manager :: "'w \<Rightarrow> 'w TimerManager" where
  "new_manager w =
     \<lparr> timers = [], callbacks = [], world = w, invoked = [], printed = [], stopped = [] \<rparr>"

definition add_callback :: "'w callback \<Rightarrow> 'w TimerManager \<Rightarrow> 'w TimerManager" where
  "add_callback cb m = m\<lparr>callbacks := callbacks m @ [cb]\<rparr>"

text \<open>
  \<^verbatim>\<open>_notify_callbacks\<close>: the loop over the subscribers from position \<open>i\<close> on, each call
  in its own \<^verbatim>\<open>try\<close>; an exception is printed and the loop goes on.
\<close>

fun notify_from :: "nat \<Rightarrow> 'w callback list \<Rightarrow> 'w TimerManager \<Rightarrow> 'w TimerManager" where
  "notify_from i [] m = m"
| "notify_from i (cb # cbs) m =
     (case cb (world m) of
        (None, w') \<Rightarrow> notify_from (Suc i) cbs (m\<lparr>world := w', invoked := invoked m @ [i]\<rparr>)
      | (Some e, w') \<Rightarrow>
          notify_from (Suc i) cbs
            (m\<lparr>world := w', invoked := invoked m @ [i],
               printed := printed m @ [CallbackError e]\<rparr>))"

definition notify_callbacks :: "'w TimerManager \<Rightarrow> 'w TimerManager" where
  "notify_callbacks m = notify_from 0 (callbacks m) m"

text \<open>\<^verbatim>\<open>self.timers[name] = timer\<close> and \<^verbatim>\<open>del self.timers[name]\<close> on the ordered dictionary.\<close>

fun dict_set :: "string \<Rightarrow> 'a \<Rightarrow> (string \<times> 'a) list \<Rightarrow> (string \<times> 'a) list" where
  "dict_set k v [] = [(k, v)]"
| "dict_set k v ((k', v') # kvs) =
     (if k = k' then (k, v) # kvs else (k', v') # dict_set k v kvs)"

definition dict_del :: "string \<Rightarrow> (string \<times> 'a) list \<Rightarrow> (string \<times> 'a) list" where
  "dict_del k kvs = filter (\<lambda>kv. fst kv \<noteq> k) kvs"

definition add_timer :: "ComplexTimer \<Rightarrow> 'w TimerManager \<Rightarrow> bool \<times> 'w TimerManager" where
  "add_timer t m =
     (if name t \<in> fst ` set (timers m) then (False, m)
      else (True, notify_callbacks (m\<lparr>timers := dict_set (name t) t (timers m)\<rparr>)))"

definition remove_timer :: "string \<Rightarrow> 'w TimerManager \<Rightarrow> bool \<times> 'w TimerManager" where
  "remove_timer n m =
     (if n \<in> fst ` set (timers m)
      then (True, notify_callbacks
                    (m\<lparr>stopped := stopped m @ [n], timers := dict_del n (timers m)\<rparr>))
      else (False, m))"

section \<open>The worker thread of an engine\<close>

text \<open>
  \<^verbatim>\<open>start()\<close> clears the stop event and launches \<^verbatim>\<open>_run\<close> on a thread of its own;
  \<^verbatim>\<open>stop()\<close> sets the event. The run of the worker is modelled as a function of the
  instant at which the event is set (\<open>None\<close>: it never is). Time is in seconds, a
  rational number; it is also the wall clock, counted from midnight of the day with
  ordinal 1 (a Monday), so that \<^verbatim>\<open>datetime.now()\<close> can be read off it. The model's
  idealisation: \<^verbatim>\<open>time.sleep(d)\<close> and a wait that times out take exactly their
  duration, every other statement takes no time, and a timeout stays below
  \<^verbatim>\<open>threading.TIMEOUT_MAX\<close>.

  A \<open>thread\<close> is the state of one worker: its clock, its engine, the instants at
  which it triggered, the actions it executed (with the name of the engine, in order),
  what it printed and, for a chain, the sub-timers it ran.
\<close>

record child_run =
  sub_type :: TimerType
  sub_timer :: ComplexTimer
  started_at :: rat
  stop_called_at :: rat
  finished_at :: rat
  sub_reports :: "report list"

record thread =
  clock :: rat
  self :: ComplexTimer
  triggered_at :: "rat list"
  executed :: "(string \<times> TimerAction) list"
  reports :: "report list"
  children :: "child_run list"

definition new_thread :: "rat \<Rightarrow> ComplexTimer \<Rightarrow> thread" where
  "new_thread t0 tm =
     \<lparr> clock = t0, self = tm, triggered_at = [], executed = [], reports = [], children = [] \<rparr>"

text \<open>
  How a run ends: \<open>Done\<close> when the function returned, \<open>Raised\<close> when an exception left
  it, \<open>Pending\<close> when the worker is still running after the number of loop
  iterations the caller allowed (or is blocked for ever).
\<close>

datatype 'a outcome = Done 'a | Raised py_error 'a | Pending 'a

fun state_of :: "'a outcome \<Rightarrow> 'a" where
  "state_of (Done s) = s"
| "state_of (Raised e s) = s"
| "state_of (Pending s) = s"


text \<open>\<^verbatim>\<open>self.stop_event.is_set()\<close> at time \<open>t\<close>.\<close>

definition is_set :: "rat option \<Rightarrow> rat \<Rightarrow> bool" where
  "is_set stop t = (case stop of None \<Rightarrow> False | Some c \<Rightarrow> c \<le> t)"

text \<open>\<^verbatim>\<open>time.sleep(d)\<close>: nothing interrupts it.\<close>

definition sleep :: "rat \<Rightarrow> thread \<Rightarrow> thread" where
  "sleep d s = s\<lparr>clock := clock s + d\<rparr>"

text \<open>
  \<^verbatim>\<open>self.stop_event.wait(timeout)\<close>. A set event returns at once, before the timeout
  is looked at. Otherwise \<^verbatim>\<open>Condition.wait\<close> compares the timeout with 0 (a
  \<^verbatim>\<open>TypeError\<close> for what is no number), waits without limit for \<^verbatim>\<open>None\<close>, and does
  not wait at all for a timeout that is not positive. The wait ends when the event is
  set.
\<close>

datatype waited = Signalled thread | TimedOut thread | Forever

fun as_timeout :: "pyval \<Rightarrow> py_error + rat option" where
  "as_timeout PNone = Inr None"
| "as_timeout (PInt n) = Inr (Some (of_int n))"
| "as_timeout (PBool b) = Inr (Some (if b then 1 else 0))"
| "as_timeout _ = Inl TypeError"

definition event_wait :: "rat option \<Rightarrow> pyval \<Rightarrow> thread \<Rightarrow> py_error + waited" where
  "event_wait stop tmo s =
     (if is_set stop (clock s) then Inr (Signalled s)
      else case as_timeout tmo of
        Inl e \<Rightarrow> Inl e
      | Inr None \<Rightarrow>
          (case stop of
             None \<Rightarrow> Inr Forever
           | Some c \<Rightarrow> Inr (Signalled (s\<lparr>clock := c\<rparr>)))
      | Inr (Some d) \<Rightarrow>
          (case stop of
             None \<Rightarrow> Inr (TimedOut (s\<lparr>clock := clock s + max d 0\<rparr>))
           | Some c \<Rightarrow>
               if c \<le> clock s + max d 0 then Inr (Signalled (s\<lparr>clock := c\<rparr>))
               else Inr (TimedOut (s\<lparr>clock := clock s + max d 0\<rparr>))))"

text \<open>
  \<^verbatim>\<open>_trigger\<close>: the time stamp, the counter, then \<^verbatim>\<open>_execute_action\<close> for every
  action in order. \<^verbatim>\<open>_execute_action\<close> performs the side effect of the action's kind
  and contains every exception of it; the model records that the action was executed.
\<close>

definition trigger :: "thread \<Rightarrow> thread" where
  "trigger s =
     s\<lparr>self := (self s)\<lparr>last_triggered := Some (clock s),
                         trigger_count := Suc (trigger_count (self s))\<rparr>,
       triggered_at := triggered_at s @ [clock s],
       executed := executed s @ map (\<lambda>a. (name (self s), a)) (actions (self s))\<rparr>"

subsection \<open>Countdown\<close>

fun run_countdown :: "nat \<Rightarrow> rat option \<Rightarrow> thread \<Rightarrow> thread outcome" where
  "run_countdown 0 stop s = Pending s"
| "run_countdown (Suc n) stop s =
     (case as_num (remaining_time (self s)) of
        Inl e \<Rightarrow> Raised e s
      | Inr r \<Rightarrow>
          if r > 0 \<and> \<not> is_set stop (clock s)
          then run_countdown n stop
                 (sleep 1 (s\<lparr>self := (self s)\<lparr>remaining_time := PInt (r - 1)\<rparr>\<rparr>))
          else if \<not> is_set stop (clock s) then Done (trigger s)
          else Done s)"

subsection \<open>Interval\<close>

fun run_interval :: "nat \<Rightarrow> rat option \<Rightarrow> int \<Rightarrow> thread \<Rightarrow> thread outcome" where
  "run_interval 0 stop count s = Pending s"
| "run_interval (Suc n) stop count s =
     (if is_set stop (clock s) then Done s
      else case event_wait stop (interval (self s)) s of
        Inl e \<Rightarrow> Raised e s
      | Inr Forever \<Rightarrow> Pending s
      | Inr (Signalled s') \<Rightarrow> Done s'
      | Inr (TimedOut s') \<Rightarrow>
          (case as_num (max_repeats (self s')) of
             Inl e \<Rightarrow> Raised e (trigger s')
           | Inr m \<Rightarrow>
               if m > 0 \<and> count + 1 \<ge> m then Done (trigger s')
               else run_interval n stop (count + 1) (trigger s')))"

subsection \<open>Scheduled\<close>

text \<open>\<^verbatim>\<open>datetime.datetime.now()\<close> read off the clock.\<close>

definition weekday :: "rat \<Rightarrow> int" where
  "weekday t = (\<lfloor>t\<rfloor> div 86400) mod 7"

definition today :: "rat \<Rightarrow> int" where
  "today t = \<lfloor>t\<rfloor> div 86400 + 1"

definition hour :: "rat \<Rightarrow> int" where
  "hour t = (\<lfloor>t\<rfloor> mod 86400) div 3600"

definition minute :: "rat \<Rightarrow> int" where
  "minute t = (\<lfloor>t\<rfloor> mod 3600) div 60"

definition second :: "rat \<Rightarrow> int" where
  "second t = \<lfloor>t\<rfloor> mod 60"

text \<open>\<^verbatim>\<open>w in v\<close> for an integer \<open>w\<close>.\<close>

fun contains_int :: "pyval \<Rightarrow> int \<Rightarrow> py_error + bool" where
  "contains_int (PList xs) w = Inr (list_ex (\<lambda>x. as_num x = Inr w) xs)"
| "contains_int (PDict kvs) w = Inr False"
| "contains_int _ w = Inl TypeError"

text \<open>\<^verbatim>\<open>self.date_specific and now.date() != self.date_specific\<close>.\<close>

definition wrong_date :: "pyval \<Rightarrow> rat \<Rightarrow> bool" where
  "wrong_date ds t = (truthy ds \<and> ds \<noteq> PDate (today t))"

definition matches :: "rat \<Rightarrow> pyval \<Rightarrow> bool" where
  "matches t v =
     (case v of
        PTime h m sec \<Rightarrow> hour t = int h \<and> minute t = int m \<and> second t = int sec
      | _ \<Rightarrow> False)"

text \<open>
  The loop over \<^verbatim>\<open>self.schedule_times\<close> of one poll: a trigger for every entry that
  equals the current time; \<^verbatim>\<open>AttributeError\<close> at an entry that is no time object.
\<close>

fun check_times :: "pyval list \<Rightarrow> thread \<Rightarrow> thread outcome" where
  "check_times [] s = Done s"
| "check_times (PTime h m sec # ts) s =
     check_times ts (if matches (clock s) (PTime h m sec) then trigger s else s)"
| "check_times (v # ts) s = Raised AttributeError s"

fun run_scheduled :: "nat \<Rightarrow> rat option \<Rightarrow> thread \<Rightarrow> thread outcome" where
  "run_scheduled 0 stop s = Pending s"
| "run_scheduled (Suc n) stop s =
     (if is_set stop (clock s) then Done s
      else case contains_int (days_of_week (self s)) (weekday (clock s)) of
        Inl e \<Rightarrow> Raised e s
      | Inr allowed \<Rightarrow>
          if \<not> allowed then run_scheduled n stop (sleep 60 s)
          else if wrong_date (date_specific (self s)) (clock s)
          then run_scheduled n stop (sleep 60 s)
          else case py_iter (schedule_times (self s)) of
            Inl e \<Rightarrow> Raised e s
          | Inr ts \<Rightarrow>
              (case check_times ts s of
                 Done s' \<Rightarrow> run_scheduled n stop (sleep 1 s')
               | Raised e s' \<Rightarrow> Raised e s'
               | Pending s' \<Rightarrow> Pending s'))"

subsection \<open>Conditional\<close>

text \<open>
  \<^verbatim>\<open>_evaluate_condition\<close> calls the builtin \<^verbatim>\<open>eval\<close> on the script. What \<^verbatim>\<open>eval\<close>
  does is an input of the model: \<open>ev script t\<close> is the result of evaluating the
  script at time \<open>t\<close>, a value or an exception of any class.
\<close>

datatype eval_result = Value pyval | Raises

type_synonym evaluator = "pyval \<Rightarrow> rat \<Rightarrow> eval_result"

definition evaluate_condition :: "evaluator \<Rightarrow> thread \<Rightarrow> bool" where
  "evaluate_condition ev s =
     (case ev (condition_script (self s)) (clock s) of
        Value v \<Rightarrow> truthy v
      | Raises \<Rightarrow> False)"

text \<open>
  One poll, the body of the \<^verbatim>\<open>try\<close>:
  \<^verbatim>\<open>if self._evaluate_condition(): self._trigger()\<close>. Neither call raises, so the
  handler of the \<^verbatim>\<open>try\<close> is never entered.
\<close>

definition poll_condition :: "evaluator \<Rightarrow> thread \<Rightarrow> thread" where
  "poll_condition ev s = (if evaluate_condition ev s then trigger s else s)"

fun run_conditional :: "nat \<Rightarrow> evaluator \<Rightarrow> rat option \<Rightarrow> thread \<Rightarrow> thread outcome" where
  "run_conditional 0 ev stop s = Pending s"
| "run_conditional (Suc n) ev stop s =
     (if is_set stop (clock s) then Done s
      else case event_wait stop (check_interval (self s)) (poll_condition ev s) of
        Inl e \<Rightarrow> Raised e (poll_condition ev s)
      | Inr Forever \<Rightarrow> Pending (poll_condition ev s)
      | Inr (Signalled s') \<Rightarrow> Done s'
      | Inr (TimedOut s') \<Rightarrow> run_conditional n ev stop s')"

subsection \<open>Pomodoro\<close>

text \<open>
  The duration of the phase that starts: Python evaluates the remainder before it
  looks at \<^verbatim>\<open>self.current_cycle > 0\<close>, so a threshold of 0 raises
  \<^verbatim>\<open>ZeroDivisionError\<close>.
\<close>

definition phase_duration :: "ComplexTimer \<Rightarrow> py_error + pyval" where
  "phase_duration t =
     (if is_work_period t then Inr (work_duration t)
      else case as_num (cycles_until_long_break t) of
        Inl e \<Rightarrow> Inl e
      | Inr c \<Rightarrow>
          if c = 0 then Inl ZeroDivisionError
          else if current_cycle t mod c = 0 \<and> current_cycle t > 0
          then Inr (long_break_duration t)
          else Inr (break_duration t))"

text \<open>
  \<^verbatim>\<open>for _ in range(duration)\<close>: the flag tells that the loop left the whole function
  with \<^verbatim>\<open>return\<close>.
\<close>

fun phase_ticks :: "nat \<Rightarrow> rat option \<Rightarrow> thread \<Rightarrow> bool \<times> thread" where
  "phase_ticks 0 stop s = (False, s)"
| "phase_ticks (Suc k) stop s =
     (if is_set stop (clock s) then (True, s) else phase_ticks k stop (sleep 1 s))"

definition switch_period :: "thread \<Rightarrow> thread" where
  "switch_period s =
     s\<lparr>self := (self s)\<lparr>current_cycle :=
                           (if is_work_period (self s) then current_cycle (self s) + 1
                            else current_cycle (self s)),
                         is_work_period := \<not> is_work_period (self s)\<rparr>\<rparr>"

fun run_pomodoro :: "nat \<Rightarrow> rat option \<Rightarrow> thread \<Rightarrow> thread outcome" where
  "run_pomodoro 0 stop s = Pending s"
| "run_pomodoro (Suc n) stop s =
     (if is_set stop (clock s) then Done s
      else case phase_duration (self s) of
        Inl e \<Rightarrow> Raised e s
      | Inr d \<Rightarrow>
          (case as_num d of
             Inl e \<Rightarrow> Raised e s
           | Inr k \<Rightarrow>
               (case phase_ticks (nat k) stop s of
                  (True, s') \<Rightarrow> Done s'
                | (False, s') \<Rightarrow> run_pomodoro n stop (switch_period (trigger s')))))"

subsection \<open>Stopwatch\<close>

fun stopwatch_loop :: "nat \<Rightarrow> rat option \<Rightarrow> rat \<Rightarrow> thread \<Rightarrow> thread outcome" where
  "stopwatch_loop 0 stop t0 s = Pending s"
| "stopwatch_loop (Suc n) stop t0 s =
     (if is_set stop (clock s) then Done s
      else stopwatch_loop n stop t0
             (s\<lparr>clock := clock s + 1 / 10,
                self := (self s)\<lparr>elapsed_time := clock s + 1 / 10 - t0\<rparr>\<rparr>))"

definition run_stopwatch :: "nat \<Rightarrow> rat option \<Rightarrow> thread \<Rightarrow> thread outcome" where
  "run_stopwatch n stop s =
     stopwatch_loop n stop (clock s) (s\<lparr>self := (self s)\<lparr>start_time := Some (clock s)\<rparr>\<rparr>)"

subsection \<open>Chain\<close>

text \<open>\<^verbatim>\<open>str(i)\<close> of the index in the sub-timer's name.\<close>

fun str_nat :: "nat \<Rightarrow> string" where
  "str_nat n =
     (if n < 10 then [char_of (48 + n)]
      else str_nat (n div 10) @ [char_of (48 + n mod 10)])"

declare str_nat.simps [simp del]

text \<open>
  The parent and its sub-timer run at the same time. \<open>runner stop c\<close> is the run of
  the sub-timer's worker from the state \<open>c\<close> when its stop event is set at \<open>stop\<close>.
  Until the parent calls \<^verbatim>\<open>chain_timer.stop()\<close> the sub-timer runs as if never
  stopped, so \<^verbatim>\<open>chain_timer.thread.is_alive()\<close> is read off its unstopped run \<open>nat_run\<close>:
  alive before the instant that run ends; unknown (\<open>None\<close>) past the point up to which
  a pending run was followed.
\<close>

fun alive_at :: "thread outcome \<Rightarrow> rat \<Rightarrow> bool option" where
  "alive_at (Pending c) t = (if t \<le> clock c then Some True else None)"
| "alive_at r t = Some (t < clock (state_of r))"

text \<open>
  \<^verbatim>\<open>while chain_timer.thread.is_alive() and not self.stop_event.is_set(): time.sleep(0.1)\<close>
\<close>

fun chain_poll :: "nat \<Rightarrow> rat option \<Rightarrow> thread outcome \<Rightarrow> thread \<Rightarrow> thread option" where
  "chain_poll 0 stop nat_run s = None"
| "chain_poll (Suc n) stop nat_run s =
     (case alive_at nat_run (clock s) of
        None \<Rightarrow> None
      | Some a \<Rightarrow>
          if a \<and> \<not> is_set stop (clock s) then chain_poll n stop nat_run (sleep (1 / 10) s)
          else Some s)"

text \<open>
  \<^verbatim>\<open>chain_timer.stop()\<close> at the parent's time \<open>p\<close>: the sub-timer's stop event is set
  at \<open>p\<close> and the parent joins its thread for at most one second. A sub-timer that had
  finished keeps the result of its unstopped run; one that was alive runs with its
  stop event set at \<open>p\<close>, and the join returns when that run ends or after one
  second, never before it was called. The sub-timer enters the parent's list of
  children: the mode it was constructed with, its engine at the end of its run, when it
  was started, when its \<^verbatim>\<open>stop()\<close> was called, when its worker ended, and what it
  printed.
\<close>

definition log_child :: "thread \<Rightarrow> rat \<Rightarrow> thread \<Rightarrow> child_run" where
  "log_child c0 p c =
     \<lparr> sub_type = timer_type (self c0), sub_timer = self c, started_at = clock c0,
       stop_called_at = p, finished_at = clock c, sub_reports = reports c \<rparr>"

definition stop_child ::
  "(rat option \<Rightarrow> thread \<Rightarrow> thread outcome) \<Rightarrow> thread outcome \<Rightarrow> thread \<Rightarrow> thread \<Rightarrow> thread option"
where
  "stop_child runner nat_run c0 s =
     (if alive_at nat_run (clock s) = Some False
      then Some (s\<lparr>children := children s @ [log_child c0 (clock s) (state_of nat_run)]\<rparr>)
      else case runner (Some (clock s)) c0 of
        Pending c \<Rightarrow> None
      | r \<Rightarrow>
          Some (s\<lparr>clock := max (clock s) (min (clock (state_of r)) (clock s + 1)),
                 children := children s @ [log_child c0 (clock s) (state_of r)]\<rparr>))"

text \<open>
  \<^verbatim>\<open>_run_chain\<close>: the loop over \<^verbatim>\<open>enumerate(self.chain_configs)\<close>. \<open>Pending\<close> when a
  sub-timer did not come to an end within the iterations allowed.
\<close>

fun run_chain ::
  "(rat option \<Rightarrow> thread \<Rightarrow> thread outcome) \<Rightarrow> nat \<Rightarrow> rat option \<Rightarrow> nat \<Rightarrow> pyval list \<Rightarrow>
   thread \<Rightarrow> thread outcome"
where
  "run_chain runner n stop i [] s = Done s"
| "run_chain runner n stop i (cfg # cfgs) s =
     (if is_set stop (clock s) then Done s
      else case getitem cfg ''type'' of
        Inl e \<Rightarrow> Raised e (s\<lparr>self := (self s)\<lparr>current_chain_index := i\<rparr>\<rparr>)
      | Inr ty \<Rightarrow>
      (case TimerType_of ty of
        Inl e \<Rightarrow> Raised e (s\<lparr>self := (self s)\<lparr>current_chain_index := i\<rparr>\<rparr>)
      | Inr tt \<Rightarrow>
      (case new_timer (name (self s) @ ''_chain_'' @ str_nat i) tt cfg of
        Inl e \<Rightarrow> Raised e (s\<lparr>self := (self s)\<lparr>current_chain_index := i\<rparr>\<rparr>)
      | Inr ct \<Rightarrow>
      (case chain_poll n stop (runner None (new_thread (clock s) ct))
              (s\<lparr>self := (self s)\<lparr>current_chain_index := i\<rparr>\<rparr>) of
        None \<Rightarrow> Pending (s\<lparr>self := (self s)\<lparr>current_chain_index := i\<rparr>\<rparr>)
      | Some s1 \<Rightarrow>
      (case stop_child runner (runner None (new_thread (clock s) ct))
              (new_thread (clock s) ct) s1 of
        None \<Rightarrow> Pending s1
      | Some s2 \<Rightarrow> run_chain runner n stop (Suc i) cfgs s2)))))"

subsection \<open>The worker's main function\<close>

text \<open>
  \<^verbatim>\<open>_run\<close>: the dispatch on the mode inside \<^verbatim>\<open>try\<close>; an exception is printed and the
  worker ends. \<open>n\<close> bounds the iterations of every loop and the depth of nested chains.
\<close>

fun contain :: "thread outcome \<Rightarrow> thread outcome" where
  "contain (Raised e s) = Done (s\<lparr>reports := reports s @ [TimerError (name (self s)) e]\<rparr>)"
| "contain r = r"

fun run :: "nat \<Rightarrow> evaluator \<Rightarrow> rat option \<Rightarrow> thread \<Rightarrow> thread outcome" where
  "run 0 ev stop s = Pending s"
| "run (Suc n) ev stop s =
     contain
       (case timer_type (self s) of
          COUNTDOWN \<Rightarrow> run_countdown n stop s
        | INTERVAL \<Rightarrow> run_interval n stop 0 s
        | SCHEDULED \<Rightarrow> run_scheduled n stop s
        | CONDITIONAL \<Rightarrow> run_conditional n ev stop s
        | CHAIN \<Rightarrow>
            (case py_iter (chain_configs (self s)) of
               Inl e \<Rightarrow> Raised e s
             | Inr cfgs \<Rightarrow> run_chain (run n ev) n stop 0 cfgs s)
        | POMODORO \<Rightarrow> run_pomodoro n stop s
        | STOPWATCH \<Rightarrow> run_stopwatch n stop s)"

text \<open>
  \<^verbatim>\<open>timer.start()\<close> on an engine whose worker is not alive, at time \<open>t0\<close>, when
  \<^verbatim>\<open>timer.stop()\<close> is called at \<open>stop\<close> or never. \<^verbatim>\<open>start()\<close> clears the stop
  event first, so a \<^verbatim>\<open>stop()\<close> that came before the start leaves no trace.
\<close>

definition cleared :: "rat \<Rightarrow> rat option \<Rightarrow> rat option" where
  "cleared t0 stop =
     (case stop of None \<Rightarrow> None | Some c \<Rightarrow> if c < t0 then None else Some c)"

definition start :: "nat \<Rightarrow> evaluator \<Rightarrow> rat option \<Rightarrow> rat \<Rightarrow> ComplexTimer \<Rightarrow> thread outcome" where
  "start n ev stop t0 tm = run n ev (cleared t0 stop) (new_thread t0 tm)"

section \<open>Saving and loading the registry\<close>

text \<open>
  The file holds a JSON document. \<^verbatim>\<open>json.dump\<close> raises \<^verbatim>\<open>TypeError\<close> for an object
  that is no JSON value (a time, a date); \<^verbatim>\<open>json.load\<close> gives back lists,
  dictionaries, strings, integers, booleans and \<^verbatim>\<open>None\<close>. The text of the document
  (the encoder and the parser of the library) is not modelled: the file is the
  document.
\<close>

datatype json =
    JNull
  | JBool bool
  | JInt int
  | JStr string
  | JArr "json list"
  | JObj "(string \<times> json) list"

fun json_dump :: "pyval \<Rightarrow> py_error + json"
and json_dump_list :: "pyval list \<Rightarrow> py_error + json list"
and json_dump_items :: "(string \<times> pyval) list \<Rightarrow> py_error + (string \<times> json) list"
where
  "json_dump PNone = Inr JNull"
| "json_dump (PBool b) = Inr (JBool b)"
| "json_dump (PInt n) = Inr (JInt n)"
| "json_dump (PStr s) = Inr (JStr s)"
| "json_dump (PList xs) =
     (case json_dump_list xs of Inl e \<Rightarrow> Inl e | Inr js \<Rightarrow> Inr (JArr js))"
| "json_dump (PDict kvs) =
     (case json_dump_items kvs of Inl e \<Rightarrow> Inl e | Inr js \<Rightarrow> Inr (JObj js))"
| "json_dump (PTime h m s) = Inl TypeError"
| "json_dump (PDate d) = Inl TypeError"
| "json_dump_list [] = Inr []"
| "json_dump_list (x # xs) =
     (case json_dump x of
        Inl e \<Rightarrow> Inl e
      | Inr j \<Rightarrow> (case json_dump_list xs of Inl e \<Rightarrow> Inl e | Inr js \<Rightarrow> Inr (j # js)))"
| "json_dump_items [] = Inr []"
| "json_dump_items (kv # kvs) =
     (case json_dump (snd kv) of
        Inl e \<Rightarrow> Inl e
      | Inr j \<Rightarrow>
          (case json_dump_items kvs of Inl e \<Rightarrow> Inl e | Inr js \<Rightarrow> Inr ((fst kv, j) # js)))"

fun json_load :: "json \<Rightarrow> pyval"
and json_load_list :: "json list \<Rightarrow> pyval list"
and json_load_items :: "(string \<times> json) list \<Rightarrow> (string \<times> pyval) list"
where
  "json_load JNull = PNone"
| "json_load (JBool b) = PBool b"
| "json_load (JInt n) = PInt n"
| "json_load (JStr s) = PStr s"
| "json_load (JArr js) = PList (json_load_list js)"
| "json_load (JObj kjs) = PDict (json_load_items kjs)"
| "json_load_list [] = []"
| "json_load_list (j # js) = json_load j # json_load_list js"
| "json_load_items [] = []"
| "json_load_items (kj # kjs) = (fst kj, json_load (snd kj)) # json_load_items kjs"

text \<open>\<^verbatim>\<open>save_to_file\<close>: the dictionary \<^verbatim>\<open>data\<close>, then \<^verbatim>\<open>json.dump\<close>.\<close>

definition action_data :: "TimerAction \<Rightarrow> pyval" where
  "action_data a =
     PDict [(''type'', PStr (ActionType_value (action_type a))), (''params'', parameters a)]"

definition timer_data :: "ComplexTimer \<Rightarrow> pyval" where
  "timer_data t =
     PDict [(''type'', PStr (TimerType_value (timer_type t))),
            (''config'', config t),
            (''actions'', PList (map action_data (actions t)))]"

definition save_to_file :: "'w TimerManager \<Rightarrow> py_error + json" where
  "save_to_file m = json_dump (PDict (map (\<lambda>kv. (fst kv, timer_data (snd kv))) (timers m)))"

text \<open>
  \<^verbatim>\<open>load_from_file\<close>: one \<^verbatim>\<open>try\<close> around the whole loop over \<^verbatim>\<open>data.items()\<close>; the
  exception of an entry is printed and ends the loading.
\<close>

fun load_actions :: "pyval list \<Rightarrow> ComplexTimer \<Rightarrow> py_error + ComplexTimer" where
  "load_actions [] t = Inr t"
| "load_actions (ad # ads) t =
     (case getitem ad ''type'' of
        Inl e \<Rightarrow> Inl e
      | Inr ty \<Rightarrow>
      (case ActionType_of ty of
        Inl e \<Rightarrow> Inl e
      | Inr aty \<Rightarrow>
      (case getitem ad ''params'' of
        Inl e \<Rightarrow> Inl e
      | Inr ps \<Rightarrow> load_actions ads (add_action \<lparr>action_type = aty, parameters = ps\<rparr> t))))"

definition load_entry :: "string \<Rightarrow> pyval \<Rightarrow> py_error + ComplexTimer" where
  "load_entry n td =
     (case getitem td ''type'' of
        Inl e \<Rightarrow> Inl e
      | Inr ty \<Rightarrow>
      (case TimerType_of ty of
        Inl e \<Rightarrow> Inl e
      | Inr tt \<Rightarrow>
      (case getitem td ''config'' of
        Inl e \<Rightarrow> Inl e
      | Inr cfg \<Rightarrow>
      (case new_timer n tt cfg of
        Inl e \<Rightarrow> Inl e
      | Inr t \<Rightarrow>
      (case getitem td ''actions'' of
        Inl e \<Rightarrow> Inl e
      | Inr acts \<Rightarrow>
      (case py_iter acts of
        Inl e \<Rightarrow> Inl e
      | Inr ads \<Rightarrow> load_actions ads t))))))"

fun load_entries :: "(string \<times> pyval) list \<Rightarrow> 'w TimerManager \<Rightarrow> 'w TimerManager" where
  "load_entries [] m = m"
| "load_entries (kv # rest) m =
     (case load_entry (fst kv) (snd kv) of
        Inl e \<Rightarrow> m\<lparr>printed := printed m @ [LoadError e]\<rparr>
      | Inr t \<Rightarrow> load_entries rest (snd (add_timer t m)))"

definition load_from_file :: "json \<Rightarrow> 'w TimerManager \<Rightarrow> 'w TimerManager" where
  "load_from_file doc m =
     (case json_load doc of
        PDict entries \<Rightarrow> load_entries entries m
      | _ \<Rightarrow> m\<lparr>printed := printed m @ [LoadError AttributeError]\<rparr>)"

text \<open>
  The exceptions the subscribers raise when they are called one after the other from
  the state \<open>w\<close>, in call order.
\<close>

fun raised_by :: "'w callback list \<Rightarrow> 'w \<Rightarrow> py_error list" where
  "raised_by [] w = []"
| "raised_by (cb # cbs) w =
     (case cb w of
        (None, w') \<Rightarrow> raised_by cbs w'
      | (Some e, w') \<Rightarrow> e # raised_by cbs w')"

section \<open>Example inputs\<close>

text \<open>
  \<^verbatim>\<open>eval("1")\<close> is the integer 1; \<open>eval_one\<close> knows this script only. \<open>eval_fails\<close> is
  the evaluation of a script that raises whenever it is evaluated, such as
  \<^verbatim>\<open>1/0\<close>.
\<close>

definition eval_one :: evaluator where
  "eval_one script t = (if script = PStr ''1'' then Value (PInt 1) else Raises)"

definition eval_fails :: evaluator where
  "eval_fails script t = Raises"

text \<open>The conditional timer \<^verbatim>\<open>c\<close> with the given script and check interval.\<close>

definition conditional_config :: "string \<Rightarrow> pyval \<Rightarrow> pyval" where
  "conditional_config script ci =
     PDict [(''condition_script'', PStr script), (''check_interval'', ci)]"

definition conditional_timer :: "string \<Rightarrow> pyval \<Rightarrow> ComplexTimer" where
  "conditional_timer script ci =
     (blank_timer ''c'' CONDITIONAL (conditional_config script ci))
       \<lparr>condition_script := PStr script, check_interval := ci\<rparr>"

text \<open>
  Entries of a persisted document: a countdown of \<open>d\<close> seconds without actions, and an
  entry with the mode tag \<^verbatim>\<open>bogus\<close>.
\<close>

definition countdown_entry :: "int \<Rightarrow> json" where
  "countdown_entry d =
     JObj [(''type'', JStr ''countdown''), (''config'', JObj [(''duration'', JInt d)]),
           (''actions'', JArr [])]"

definition bogus_entry :: json where
  "bogus_entry = JObj [(''type'', JStr ''bogus''), (''config'', JObj []), (''actions'', JArr [])]"

definition bogus_action_entry :: json where
  "bogus_action_entry =
     JObj [(''type'', JStr ''countdown''), (''config'', JObj []),
           (''actions'', JArr [JObj [(''type'', JStr ''bogus''), (''params'', JObj [])]])]"

text \<open>A countdown of \<open>D\<close> seconds, and two actions.\<close>

definition countdown_timer :: "string \<Rightarrow> int \<Rightarrow> ComplexTimer" where
  "countdown_timer nm D =
     (blank_timer nm COUNTDOWN (PDict [(''duration'', PInt D)]))
       \<lparr>duration := PInt D, remaining_time := PInt D\<rparr>"

definition beep :: TimerAction where
  "beep = \<lparr>action_type = SOUND, parameters = PDict []\<rparr>"

definition notify :: TimerAction where
  "notify = \<lparr>action_type = NOTIFICATION, parameters = PDict [(''title'', PStr ''done'')]\<rparr>"



text \<open>
  A pomodoro timer with work, break and long break durations \<open>W\<close>, \<open>B\<close>, \<open>L\<close> and the
  threshold \<open>C\<close>.
\<close>

definition pomodoro_config :: "int \<Rightarrow> int \<Rightarrow> int \<Rightarrow> int \<Rightarrow> pyval" where
  "pomodoro_config W B L C =
     PDict [(''work_duration'', PInt W), (''break_duration'', PInt B),
            (''long_break_duration'', PInt L), (''cycles_until_long_break'', PInt C)]"

definition pomodoro_timer :: "string \<Rightarrow> int \<Rightarrow> int \<Rightarrow> int \<Rightarrow> int \<Rightarrow> ComplexTimer" where
  "pomodoro_timer nm W B L C =
     (blank_timer nm POMODORO (pomodoro_config W B L C))
       \<lparr>work_duration := PInt W, break_duration := PInt B, long_break_duration := PInt L,
        cycles_until_long_break := PInt C\<rparr>"

text \<open>
  A scheduled timer with the given time marks, allowed weekdays and date (or none), as
  \<^verbatim>\<open>TimerApp.get_timer_config\<close> builds its configuration.
\<close>

definition date_value :: "int option \<Rightarrow> pyval" where
  "date_value dt = (case dt of None \<Rightarrow> PNone | Some d \<Rightarrow> PDate d)"

definition scheduled_config :: "pyval list \<Rightarrow> int list \<Rightarrow> int option \<Rightarrow> pyval" where
  "scheduled_config ts days dt =
     PDict [(''schedule_times'', PList ts), (''days_of_week'', PList (map PInt days)),
            (''date_specific'', date_value dt)]"

definition scheduled_timer :: "string \<Rightarrow> pyval list \<Rightarrow> int list \<Rightarrow> int option \<Rightarrow> ComplexTimer" where
  "scheduled_timer nm ts days dt =
     (blank_timer nm SCHEDULED (scheduled_config ts days dt))
       \<lparr>schedule_times := PList ts, days_of_week := PList (map PInt days),
        date_specific := date_value dt\<rparr>"

text \<open>A chain timer with the given sub-timer specifications.\<close>

definition chain_config :: "pyval list \<Rightarrow> pyval" where
  "chain_config specs = PDict [(''chain_configs'', PList specs)]"

definition chain_timer :: "string \<Rightarrow> pyval list \<Rightarrow> ComplexTimer" where
  "chain_timer nm specs =
     (blank_timer nm CHAIN (chain_config specs))\<lparr>chain_configs := PList specs\<rparr>"



definition scheduled_spec :: "pyval list \<Rightarrow> int list \<Rightarrow> pyval" where
  "scheduled_spec ts days =
     PDict [(''type'', PStr ''scheduled''), (''schedule_times'', PList ts),
            (''days_of_week'', PList (map PInt days))]"

section \<open>Predicates of the statements\<close>

text \<open>
  An entry of a persisted document whose \<^verbatim>\<open>type\<close> is no mode tag, and one with an
  action whose \<^verbatim>\<open>type\<close> is no action tag.
\<close>

definition unknown_mode_tag :: "pyval \<Rightarrow> bool" where
  "unknown_mode_tag td =
     (case getitem td ''type'' of
        Inr ty \<Rightarrow> TimerType_of ty = Inl ValueError
      | Inl e \<Rightarrow> False)"

definition unknown_action_tag :: "pyval \<Rightarrow> bool" where
  "unknown_action_tag td =
     (case getitem td ''actions'' of
        Inl e \<Rightarrow> False
      | Inr acts \<Rightarrow>
          (case py_iter acts of
             Inl e \<Rightarrow> False
           | Inr ads \<Rightarrow>
               list_ex (\<lambda>ad. case getitem ad ''type'' of
                                Inr aty \<Rightarrow> ActionType_of aty = Inl ValueError
                              | Inl e \<Rightarrow> False) ads))"

text \<open>The entries that load: \<^verbatim>\<open>load_entry\<close> builds an engine from each.\<close>

definition loads :: "string \<times> pyval \<Rightarrow> bool" where
  "loads kv = (case load_entry (fst kv) (snd kv) of Inr t \<Rightarrow> True | Inl e \<Rightarrow> False)"

text \<open>
  The pomodoro phases in the words of the specification: a break is long exactly when
  the counter of completed cycles is a positive multiple of the threshold; the phase
  that starts is a work phase or such a break. \<open>phase_step d\<close> is a completed phase of
  \<open>d\<close> seconds: the seconds pass, one trigger, the counter and the phase flag move on.
\<close>

definition break_length :: "int \<Rightarrow> int \<Rightarrow> int \<Rightarrow> int \<Rightarrow> int" where
  "break_length B L C cyc = (if 0 < cyc \<and> C dvd cyc then L else B)"

definition phase_length :: "ComplexTimer \<Rightarrow> int \<Rightarrow> int \<Rightarrow> int \<Rightarrow> int \<Rightarrow> int" where
  "phase_length t W B L C =
     (if is_work_period t then W else break_length B L C (current_cycle t))"

definition phase_step :: "int \<Rightarrow> thread \<Rightarrow> thread" where
  "phase_step d s = switch_period (trigger (s\<lparr>clock := clock s + of_nat (nat d)\<rparr>))"

definition pomodoro_typed :: "ComplexTimer \<Rightarrow> int \<Rightarrow> int \<Rightarrow> int \<Rightarrow> int \<Rightarrow> bool" where
  "pomodoro_typed t W B L C =
     (work_duration t = PInt W \<and> break_duration t = PInt B \<and>
      long_break_duration t = PInt L \<and> cycles_until_long_break t = PInt C)"












text \<open>What the log of a chain says of a sub-timer, for reading the examples.\<close>

definition summary :: "child_run \<Rightarrow> TimerType \<times> rat \<times> rat \<times> rat \<times> nat" where
  "summary r =
     (sub_type r, started_at r, stop_called_at r, finished_at r, trigger_count (sub_timer r))"

text \<open>
  What saving and loading are to keep of a registered engine: the key it is registered
  under, its name, mode, configuration and actions. An engine is constructible when
  \<^verbatim>\<open>ComplexTimer(name, timer_type, config)\<close> does not raise, as is the case for every
  engine that exists.
\<close>

definition essence ::
  "string \<times> ComplexTimer \<Rightarrow> string \<times> string \<times> TimerType \<times> pyval \<times> TimerAction list"
where
  "essence kv = (fst kv, name (snd kv), timer_type (snd kv), config (snd kv), actions (snd kv))"

definition constructible :: "ComplexTimer \<Rightarrow> bool" where
  "constructible t =
     (case new_timer (name t) (timer_type t) (config t) of Inr t0 \<Rightarrow> True | Inl e \<Rightarrow> False)"

section \<open>Properties of the engine and the registry\<close>

lemma cleared_None [simp]: "cleared t0 None = None"
  by (simp add: cleared_def)

lemma cleared_later [simp]: "t0 \<le> c \<Longrightarrow> cleared t0 (Some c) = Some c"
  by (simp add: cleared_def)

subsection \<open>Change notification\<close>

lemma upt_first: "[i..<i + Suc n] = i # [Suc i..<Suc i + n]"
  by (simp add: upt_rec)

lemma notify_from_invoked:
  "invoked (notify_from i cbs m) = invoked m @ [i..<i + length cbs]"
proof (induction cbs arbitrary: i m)
  case Nil
  show ?case by simp
next
  case (Cons cb cbs)
  have "[i..<i + length (cb # cbs)] = i # [Suc i..<Suc i + length cbs]"
    using upt_first [of i "length cbs"] by simp
  then show ?case
    using Cons.IH by (cases "cb (world m)") (auto split: option.splits)
qed

lemma notify_from_world:
  "world (notify_from i cbs m) = foldl (\<lambda>w cb. snd (cb w)) (world m) cbs"
  by (induction cbs arbitrary: i m) (auto split: prod.splits option.splits)

lemma notify_from_printed:
  "printed (notify_from i cbs m) = printed m @ map CallbackError (raised_by cbs (world m))"
  by (induction cbs arbitrary: i m) (auto split: prod.splits option.splits)

lemma notify_from_timers [simp]: "timers (notify_from i cbs m) = timers m"
  by (induction cbs arbitrary: i m) (auto split: prod.splits option.splits)

lemma notify_from_callbacks [simp]: "callbacks (notify_from i cbs m) = callbacks m"
  by (induction cbs arbitrary: i m) (auto split: prod.splits option.splits)

lemma notify_from_stopped [simp]: "stopped (notify_from i cbs m) = stopped m"
  by (induction cbs arbitrary: i m) (auto split: prod.splits option.splits)

text \<open>
  Claim C10. \<^verbatim>\<open>add_timer\<close> succeeds exactly when the name is new and
  \<^verbatim>\<open>remove_timer\<close> exactly when the name is registered. After a success every
  subscriber has been called exactly once, in the order of subscription (the calls
  added to \<open>invoked\<close> are the positions \<open>0, ..., length (callbacks m) - 1\<close>), whichever
  of them raise: the exceptions are printed, one report each, and the state the
  subscribers work on is the one all of them have acted on. After a failure no
  subscriber has been called and nothing was printed.
\<close>

theorem callbacks_invoked_once:
  "fst (add_timer t m) = (name t \<notin> fst ` set (timers m)) \<and>
   invoked (snd (add_timer t m)) =
     invoked m @ (if fst (add_timer t m) then [0..<length (callbacks m)] else []) \<and>
   printed (snd (add_timer t m)) =
     printed m @ (if fst (add_timer t m)
                  then map CallbackError (raised_by (callbacks m) (world m)) else []) \<and>
   world (snd (add_timer t m)) =
     (if fst (add_timer t m) then foldl (\<lambda>w cb. snd (cb w)) (world m) (callbacks m)
      else world m) \<and>
   fst (remove_timer n m) = (n \<in> fst ` set (timers m)) \<and>
   invoked (snd (remove_timer n m)) =
     invoked m @ (if fst (remove_timer n m) then [0..<length (callbacks m)] else []) \<and>
   printed (snd (remove_timer n m)) =
     printed m @ (if fst (remove_timer n m)
                  then map CallbackError (raised_by (callbacks m) (world m)) else []) \<and>
   world (snd (remove_timer n m)) =
     (if fst (remove_timer n m) then foldl (\<lambda>w cb. snd (cb w)) (world m) (callbacks m)
      else world m)"
  by (simp add: add_timer_def remove_timer_def notify_callbacks_def notify_from_invoked
      notify_from_printed notify_from_world)

text \<open>
  Two subscribers on a counter, the first of which raises \<^verbatim>\<open>ValueError\<close> after adding
  1: adding the timer \<^verbatim>\<open>a\<close> calls both (the counter is 11), removing the absent
  \<^verbatim>\<open>b\<close> calls none.
\<close>

theorem callbacks_invoked_once_witness:
  "fst (add_timer (blank_timer ''a'' STOPWATCH (PDict []))
         (add_callback (\<lambda>w. (None, w + 10))
           (add_callback (\<lambda>w. (Some ValueError, w + 1)) (new_manager (0 :: nat))))) \<and>
   invoked (snd (add_timer (blank_timer ''a'' STOPWATCH (PDict []))
         (add_callback (\<lambda>w. (None, w + 10))
           (add_callback (\<lambda>w. (Some ValueError, w + 1)) (new_manager (0 :: nat)))))) = [0, 1] \<and>
   printed (snd (add_timer (blank_timer ''a'' STOPWATCH (PDict []))
         (add_callback (\<lambda>w. (None, w + 10))
           (add_callback (\<lambda>w. (Some ValueError, w + 1)) (new_manager (0 :: nat))))))
     = [CallbackError ValueError] \<and>
   world (snd (add_timer (blank_timer ''a'' STOPWATCH (PDict []))
         (add_callback (\<lambda>w. (None, w + 10))
           (add_callback (\<lambda>w. (Some ValueError, w + 1)) (new_manager (0 :: nat)))))) = 11 \<and>
   \<not> fst (remove_timer ''b''
         (add_callback (\<lambda>w. (None, w + 10))
           (add_callback (\<lambda>w. (Some ValueError, w + 1)) (new_manager (0 :: nat))))) \<and>
   invoked (snd (remove_timer ''b''
         (add_callback (\<lambda>w. (None, w + 10))
           (add_callback (\<lambda>w. (Some ValueError, w + 1)) (new_manager (0 :: nat)))))) = []"
  using callbacks_invoked_once
    [of "blank_timer ''a'' STOPWATCH (PDict [])"
        "add_callback (\<lambda>w. (None, w + 10))
           (add_callback (\<lambda>w. (Some ValueError, w + 1)) (new_manager (0 :: nat)))"
        "''b''"]
  by (simp add: add_callback_def new_manager_def blank_timer_def upt_rec)

subsection \<open>The condition evaluator\<close>

lemma conditional_timer_constructed:
  "new_timer ''c'' CONDITIONAL (conditional_config script ci) = Inr (conditional_timer script ci)"
  by (simp add: new_timer_def init_timer_specifics_def conditional_config_def
      conditional_timer_def blank_timer_def)

lemma event_wait_self:
  "event_wait stop tmo s = Inr (Signalled s') \<Longrightarrow> self s' = self s \<and> executed s' = executed s"
  "event_wait stop tmo s = Inr (TimedOut s') \<Longrightarrow> self s' = self s \<and> executed s' = executed s"
  by (auto simp: event_wait_def split: if_splits sum.splits option.splits)

lemma raising_never_triggers:
  assumes "\<And>t. ev (condition_script (self s)) t = Raises"
  shows "self (state_of (run_conditional n ev stop s)) = self s \<and>
         executed (state_of (run_conditional n ev stop s)) = executed s"
  using assms
proof (induction n arbitrary: s)
  case 0
  show ?case by simp
next
  case (Suc n)
  have p: "poll_condition ev s = s"
    using Suc.prems by (simp add: poll_condition_def evaluate_condition_def)
  show ?case
  proof (cases "is_set stop (clock s)")
    case True
    then show ?thesis by simp
  next
    case False
    show ?thesis
    proof (cases "event_wait stop (check_interval (self s)) s")
      case (Inl e)
      with False p show ?thesis by simp
    next
      case (Inr w)
      show ?thesis
      proof (cases w)
        case (Signalled s')
        with Inr False p event_wait_self(1) [of stop "check_interval (self s)" s s']
        show ?thesis by simp
      next
        case (TimedOut s')
        with Inr have e: "self s' = self s" "executed s' = executed s"
          using event_wait_self(2) [of stop "check_interval (self s)" s s'] by simp_all
        have "\<And>t. ev (condition_script (self s')) t = Raises"
          using Suc.prems e by simp
        from Suc.IH [OF this] TimedOut Inr False p e show ?thesis by simp
      next
        case Forever
        with Inr False p show ?thesis by simp
      qed
    qed
  qed
qed

lemma conditional_raised_only_TypeError:
  "run_conditional n ev stop s = Raised e s' \<Longrightarrow>
   as_timeout (check_interval (self s')) = Inl TypeError \<and> e = TypeError"
proof (induction n arbitrary: s)
  case 0
  then show ?case by simp
next
  case (Suc n)
  show ?case
  proof (cases "is_set stop (clock s)")
    case True
    with Suc.prems show ?thesis by simp
  next
    case False
    show ?thesis
    proof (cases "event_wait stop (check_interval (self s)) (poll_condition ev s)")
      case (Inl e')
      with False Suc.prems have s': "s' = poll_condition ev s" "e = e'" by simp_all
      have "check_interval (self (poll_condition ev s)) = check_interval (self s)"
        by (simp add: poll_condition_def trigger_def)
      moreover have "as_timeout (check_interval (self s)) = Inl TypeError \<and> e' = TypeError"
        using Inl False
        by (cases "check_interval (self s)")
           (auto simp: event_wait_def split: if_splits sum.splits option.splits)
      ultimately show ?thesis using s' by simp
    next
      case (Inr w)
      with False Suc.prems Suc.IH show ?thesis by (cases w) auto
    qed
  qed
qed

text \<open>
  Claim C6, as stated, fails: a value that is no boolean is not treated as false but
  judged by \<^verbatim>\<open>bool(value)\<close>. The script \<^verbatim>\<open>1\<close> evaluates to the integer 1, the
  evaluator answers true and the poll triggers.
\<close>

theorem nonboolean_value_triggers:
  "eval_one (condition_script (conditional_timer ''1'' (PInt 30))) 0 = Value (PInt 1) \<and>
   evaluate_condition eval_one (new_thread 0 (conditional_timer ''1'' (PInt 30))) \<and>
   trigger_count (self (poll_condition eval_one (new_thread 0 (conditional_timer ''1'' (PInt 30)))))
     = 1"
  by (simp add: eval_one_def conditional_timer_def blank_timer_def new_thread_def
      evaluate_condition_def poll_condition_def trigger_def)

text \<open>
  Claim C6, amended. An evaluation that raises is treated as false and the poll
  triggers nothing; an evaluation that returns a value is its truth value
  \<^verbatim>\<open>bool(value)\<close>, also for a value that is no boolean. With a script that raises at
  every poll the run never triggers and executes no action. No exception of the
  evaluation leaves the run loop: the only exception that ends
  \<^verbatim>\<open>_run_conditional\<close> is the \<^verbatim>\<open>TypeError\<close> of a check interval that is no number.
\<close>

theorem evaluation_failure_is_false:
  "(ev (condition_script (self s)) (clock s) = Raises \<longrightarrow>
      \<not> evaluate_condition ev s \<and> poll_condition ev s = s) \<and>
   (ev (condition_script (self s)) (clock s) = Value v \<longrightarrow>
      evaluate_condition ev s = truthy v) \<and>
   ((\<forall>t. ev (condition_script (self s)) t = Raises) \<longrightarrow>
      trigger_count (self (state_of (run_conditional n ev stop s))) = trigger_count (self s) \<and>
      executed (state_of (run_conditional n ev stop s)) = executed s) \<and>
   (run_conditional n ev stop s = Raised e s' \<longrightarrow>
      e = TypeError \<and> as_timeout (check_interval (self s')) = Inl TypeError)"
proof (intro conjI impI)
  assume "ev (condition_script (self s)) (clock s) = Raises"
  then show "\<not> evaluate_condition ev s" "poll_condition ev s = s"
    by (simp_all add: evaluate_condition_def poll_condition_def)
next
  assume "ev (condition_script (self s)) (clock s) = Value v"
  then show "evaluate_condition ev s = truthy v"
    by (simp add: evaluate_condition_def)
next
  assume "\<forall>t. ev (condition_script (self s)) t = Raises"
  then have "self (state_of (run_conditional n ev stop s)) = self s \<and>
             executed (state_of (run_conditional n ev stop s)) = executed s"
    using raising_never_triggers [of ev s n stop] by simp
  then show "trigger_count (self (state_of (run_conditional n ev stop s))) = trigger_count (self s)"
    "executed (state_of (run_conditional n ev stop s)) = executed s"
    by simp_all
next
  assume "run_conditional n ev stop s = Raised e s'"
  then show "e = TypeError" "as_timeout (check_interval (self s')) = Inl TypeError"
    using conditional_raised_only_TypeError [of n ev stop s e s'] by simp_all
qed

text \<open>
  The script that raises, polled every 30 seconds and stopped after 100 seconds: four
  polls, no trigger. The script \<^verbatim>\<open>1\<close>: true. A check interval that is a string: the
  first wait raises \<^verbatim>\<open>TypeError\<close>.
\<close>

theorem evaluation_failure_is_false_witness:
  "eval_fails (PStr ''1/0'') 0 = Raises \<and>
   \<not> evaluate_condition eval_fails (new_thread 0 (conditional_timer ''1/0'' (PInt 30))) \<and>
   run_conditional 5 eval_fails (Some 100) (new_thread 0 (conditional_timer ''1/0'' (PInt 30)))
     = Done ((new_thread 0 (conditional_timer ''1/0'' (PInt 30)))\<lparr>clock := 100\<rparr>) \<and>
   trigger_count (self (state_of (run_conditional 5 eval_fails (Some 100)
       (new_thread 0 (conditional_timer ''1/0'' (PInt 30)))))) = 0 \<and>
   eval_one (PStr ''1'') 0 = Value (PInt 1) \<and>
   evaluate_condition eval_one (new_thread 0 (conditional_timer ''1'' (PInt 30))) \<and>
   run_conditional 5 eval_fails None (new_thread 0 (conditional_timer ''1/0'' (PStr ''x'')))
     = Raised TypeError (new_thread 0 (conditional_timer ''1/0'' (PStr ''x'')))"
  using evaluation_failure_is_false
    [of eval_fails "new_thread 0 (conditional_timer ''1/0'' (PInt 30))" "PNone" 5 "Some 100"
        TypeError "new_thread 0 (conditional_timer ''1/0'' (PInt 30))"]
    evaluation_failure_is_false
    [of eval_one "new_thread 0 (conditional_timer ''1'' (PInt 30))" "PInt 1" 5 None
        TypeError "new_thread 0 (conditional_timer ''1'' (PInt 30))"]
    evaluation_failure_is_false
    [of eval_fails "new_thread 0 (conditional_timer ''1/0'' (PStr ''x''))" "PNone" 5 None
        TypeError "new_thread 0 (conditional_timer ''1/0'' (PStr ''x''))"]
  by (simp add: eval_fails_def eval_one_def conditional_timer_def blank_timer_def
      new_thread_def evaluate_condition_def poll_condition_def event_wait_def is_set_def
      numeral_nat)

subsection \<open>Loading a document with an unknown tag\<close>

lemma unknown_mode_fails: "unknown_mode_tag td \<Longrightarrow> load_entry n td = Inl ValueError"
  by (auto simp: unknown_mode_tag_def load_entry_def split: sum.splits)

lemma load_actions_unknown:
  "list_ex (\<lambda>ad. case getitem ad ''type'' of
                    Inr aty \<Rightarrow> ActionType_of aty = Inl ValueError
                  | Inl e \<Rightarrow> False) ads \<Longrightarrow> \<exists>e. load_actions ads t = Inl e"
proof (induction ads arbitrary: t)
  case Nil
  then show ?case by simp
next
  case (Cons ad ads)
  then show ?case by (auto split: sum.splits)
qed

lemma unknown_action_fails: "unknown_action_tag td \<Longrightarrow> \<exists>e. load_entry n td = Inl e"
  using load_actions_unknown
  by (auto simp: unknown_action_tag_def load_entry_def split: sum.splits)

lemma load_entries_stops:
  assumes "list_all loads pre" and "load_entry n td = Inl e"
  shows "load_entries (pre @ (n, td) # post) m =
         (load_entries pre m)\<lparr>printed := printed (load_entries pre m) @ [LoadError e]\<rparr>"
  using assms
proof (induction pre arbitrary: m)
  case Nil
  then show ?case by simp
next
  case (Cons kv pre)
  then show ?case by (auto simp: loads_def split: sum.splits)
qed

text \<open>
  Claim C7, as stated, fails in its last part: the entries after the one with the
  unknown tag are not loaded. The document with the entries \<^verbatim>\<open>a\<close> (mode tag
  \<^verbatim>\<open>bogus\<close>) and \<^verbatim>\<open>b\<close> (a countdown) registers nothing and prints one report, while
  the document with \<^verbatim>\<open>b\<close> alone registers \<^verbatim>\<open>b\<close>.
\<close>

theorem unknown_tag_drops_later_entries:
  "timers (load_from_file (JObj [(''a'', bogus_entry), (''b'', countdown_entry 5)])
             (new_manager ())) = [] \<and>
   printed (load_from_file (JObj [(''a'', bogus_entry), (''b'', countdown_entry 5)])
              (new_manager ())) = [LoadError ValueError] \<and>
   map fst (timers (load_from_file (JObj [(''b'', countdown_entry 5)]) (new_manager ())))
     = [''b'']"
  by (simp add: load_from_file_def bogus_entry_def countdown_entry_def load_entry_def
      TimerType_of_def new_manager_def new_timer_def init_timer_specifics_def blank_timer_def
      add_timer_def notify_callbacks_def)

text \<open>
  Claim C7, amended. In a document whose entries before \<open>(n, td)\<close> all load, an entry
  \<open>(n, td)\<close> with an unknown mode tag or an unknown action tag fails; the failure is
  printed; no engine is registered for it (the registry holds what the entries before
  it registered, as if the document ended there); and the load ends with it: the
  entries after it are not loaded.
\<close>

theorem unknown_tag_ends_load:
  assumes "unknown_mode_tag td \<or> unknown_action_tag td"
    and "list_all loads pre"
    and "json_load doc = PDict (pre @ (n, td) # post)"
  shows "\<exists>e. load_entry n td = Inl e \<and>
           load_from_file doc m =
             (load_entries pre m)\<lparr>printed := printed (load_entries pre m) @ [LoadError e]\<rparr> \<and>
           timers (load_from_file doc m) = timers (load_entries pre m)"
proof -
  obtain e where e: "load_entry n td = Inl e"
    using assms(1) unknown_mode_fails unknown_action_fails by blast
  have "load_from_file doc m =
          (load_entries pre m)\<lparr>printed := printed (load_entries pre m) @ [LoadError e]\<rparr>"
    using load_entries_stops [OF assms(2) e, of post m] assms(3)
    by (simp add: load_from_file_def)
  with e show ?thesis by simp
qed

text \<open>
  The document \<^verbatim>\<open>b\<close> (countdown), \<^verbatim>\<open>a\<close> (an action tagged \<^verbatim>\<open>bogus\<close>), \<^verbatim>\<open>c\<close>
  (countdown): only \<^verbatim>\<open>b\<close> is registered, and the \<^verbatim>\<open>ValueError\<close> is printed.
\<close>

theorem unknown_tag_ends_load_witness:
  "unknown_action_tag (json_load bogus_action_entry) \<and>
   list_all loads [(''b'', json_load (countdown_entry 5))] \<and>
   json_load (JObj [(''b'', countdown_entry 5), (''a'', bogus_action_entry),
                    (''c'', countdown_entry 7)])
     = PDict ([(''b'', json_load (countdown_entry 5))] @
              (''a'', json_load bogus_action_entry) # [(''c'', json_load (countdown_entry 7))]) \<and>
   load_entry ''a'' (json_load bogus_action_entry) = Inl ValueError \<and>
   map fst (timers (load_from_file
       (JObj [(''b'', countdown_entry 5), (''a'', bogus_action_entry), (''c'', countdown_entry 7)])
       (new_manager ()))) = [''b''] \<and>
   printed (load_from_file
       (JObj [(''b'', countdown_entry 5), (''a'', bogus_action_entry), (''c'', countdown_entry 7)])
       (new_manager ())) = [LoadError ValueError]"
  using unknown_tag_ends_load
    [of "json_load bogus_action_entry" "[(''b'', json_load (countdown_entry 5))]"
        "JObj [(''b'', countdown_entry 5), (''a'', bogus_action_entry), (''c'', countdown_entry 7)]"
        "''a''" "[(''c'', json_load (countdown_entry 7))]" "new_manager ()"]
  by (simp add: unknown_action_tag_def loads_def bogus_action_entry_def countdown_entry_def
      load_entry_def TimerType_of_def ActionType_of_def new_manager_def new_timer_def
      init_timer_specifics_def blank_timer_def add_timer_def notify_callbacks_def)

subsection \<open>Countdown\<close>

lemma with_actions_eq: "with_actions tm acts = tm\<lparr>actions := actions tm @ acts\<rparr>"
  unfolding with_actions_def
  by (induction acts arbitrary: tm) (simp_all add: add_action_def)

lemma countdown_uncancelled:
  assumes "remaining_time (self s) = PInt (int k)" and "k < n"
  shows "\<exists>s'. run_countdown n None s = Done s' \<and>
           trigger_count (self s') = Suc (trigger_count (self s)) \<and>
           executed s' = executed s @ map (\<lambda>a. (name (self s), a)) (actions (self s)) \<and>
           clock s' = clock s + of_nat k \<and>
           triggered_at s' = triggered_at s @ [clock s + of_nat k] \<and>
           remaining_time (self s') = PInt 0"
  using assms
proof (induction k arbitrary: n s)
  case 0
  then obtain m where n: "n = Suc m" by (cases n) auto
  show ?case using 0 by (simp add: n is_set_def trigger_def)
next
  case (Suc k)
  then obtain m where n: "n = Suc m" and km: "k < m" by (cases n) auto
  let ?s = "sleep 1 (s\<lparr>self := (self s)\<lparr>remaining_time := PInt (int (Suc k) - 1)\<rparr>\<rparr>)"
  have r: "remaining_time (self ?s) = PInt (int k)" by (simp add: sleep_def)
  from Suc.IH [OF r km] obtain s' where s': "run_countdown m None ?s = Done s'"
    "trigger_count (self s') = Suc (trigger_count (self ?s))"
    "executed s' = executed ?s @ map (\<lambda>a. (name (self ?s), a)) (actions (self ?s))"
    "clock s' = clock ?s + of_nat k"
    "triggered_at s' = triggered_at ?s @ [clock ?s + of_nat k]"
    "remaining_time (self s') = PInt 0"
    by blast
  have "run_countdown n None s = run_countdown m None ?s"
    using Suc.prems(1) by (simp add: n is_set_def)
  with s' show ?case by (simp add: sleep_def algebra_simps)
qed

lemma countdown_cancelled:
  assumes "remaining_time (self s) = PInt (int k)" and "k < n" and "c \<le> clock s + of_nat k"
  shows "\<exists>s'. run_countdown n (Some c) s = Done s' \<and>
           trigger_count (self s') = trigger_count (self s) \<and>
           executed s' = executed s"
  using assms
proof (induction k arbitrary: n s)
  case 0
  then obtain m where n: "n = Suc m" by (cases n) auto
  show ?case using 0 by (simp add: n is_set_def)
next
  case (Suc k)
  then obtain m where n: "n = Suc m" and km: "k < m" by (cases n) auto
  show ?case
  proof (cases "is_set (Some c) (clock s)")
    case True
    then show ?thesis using Suc.prems(1) by (simp add: n)
  next
    case False
    let ?s = "sleep 1 (s\<lparr>self := (self s)\<lparr>remaining_time := PInt (int (Suc k) - 1)\<rparr>\<rparr>)"
    have r: "remaining_time (self ?s) = PInt (int k)" by (simp add: sleep_def)
    have c: "c \<le> clock ?s + of_nat k" using Suc.prems(3) by (simp add: sleep_def algebra_simps)
    from Suc.IH [OF r km c] obtain s' where s': "run_countdown m (Some c) ?s = Done s'"
      "trigger_count (self s') = trigger_count (self ?s)"
      "executed s' = executed ?s"
      by blast
    have "run_countdown n (Some c) s = run_countdown m (Some c) ?s"
      using Suc.prems(1) False by (simp add: n)
    with s' show ?thesis by (simp add: sleep_def)
  qed
qed

lemma countdown_constructed:
  assumes "new_timer nm COUNTDOWN cfg = Inr tm0"
    and "dict_get cfg ''duration'' (PInt 0) = Inr (PInt D)"
  shows "tm0 = (blank_timer nm COUNTDOWN cfg)\<lparr>duration := PInt D, remaining_time := PInt D\<rparr>"
  using assms by (simp add: new_timer_def init_timer_specifics_def blank_timer_def)

text \<open>
  Claim C8. A countdown timer constructed with the duration \<open>D \<ge> 0\<close> (given, or 0
  by default), with any actions attached, started at \<open>t0\<close>: when it is never
  stopped, the worker ends by itself after \<open>D\<close> seconds, having triggered once, at
  the instant \<open>t0 + D\<close> at which the remaining time reaches zero: the trigger count is
  1 and every action was executed once, in order. When it is stopped at a time \<open>c\<close>
  after the start and before the remaining time reaches zero (\<open>c < t0 + D\<close>), the
  worker ends without a trigger: the trigger count is 0 and no action was executed.
  (\<open>n\<close> bounds the loop iterations followed; \<open>D + 2\<close> are enough.)
\<close>

theorem countdown_triggers_once:
  assumes "0 \<le> D"
    and "new_timer nm COUNTDOWN cfg = Inr tm0"
    and "dict_get cfg ''duration'' (PInt 0) = Inr (PInt D)"
    and "nat D + 1 < n"
  shows "(\<exists>s. start n ev None t0 (with_actions tm0 acts) = Done s \<and>
            trigger_count (self s) = 1 \<and>
            executed s = map (\<lambda>a. (nm, a)) acts \<and>
            triggered_at s = [t0 + of_int D] \<and>
            clock s = t0 + of_int D) \<and>
         (\<forall>c. t0 \<le> c \<and> c < t0 + of_int D \<longrightarrow>
            (\<exists>s. start n ev (Some c) t0 (with_actions tm0 acts) = Done s \<and>
               trigger_count (self s) = 0 \<and> executed s = []))"
proof -
  obtain m where n: "n = Suc m" and m: "nat D < m" using assms(4) by (cases n) auto
  let ?tm = "with_actions tm0 acts"
  have f: "timer_type ?tm = COUNTDOWN"
    "remaining_time (self (new_thread t0 ?tm)) = PInt (int (nat D))"
    "trigger_count ?tm = 0" "name ?tm = nm" "actions ?tm = acts"
    using assms(1) countdown_constructed [OF assms(2,3)]
    by (simp_all add: with_actions_eq blank_timer_def new_thread_def)
  have D: "of_nat (nat D) = (of_int D :: rat)" using assms(1) by simp
  from countdown_uncancelled [OF f(2) m] obtain s where
    s: "run_countdown m None (new_thread t0 ?tm) = Done s"
       "trigger_count (self s) = Suc (trigger_count (self (new_thread t0 ?tm)))"
       "executed s = executed (new_thread t0 ?tm) @
          map (\<lambda>a. (name (self (new_thread t0 ?tm)), a)) (actions (self (new_thread t0 ?tm)))"
       "clock s = clock (new_thread t0 ?tm) + of_nat (nat D)"
       "triggered_at s = triggered_at (new_thread t0 ?tm) @
          [clock (new_thread t0 ?tm) + of_nat (nat D)]"
    by blast
  have "start n ev None t0 ?tm = Done s"
    using s(1) f(1) by (simp add: start_def n new_thread_def)
  then have first: "\<exists>s. start n ev None t0 ?tm = Done s \<and>
           trigger_count (self s) = 1 \<and>
           executed s = map (\<lambda>a. (nm, a)) acts \<and>
           triggered_at s = [t0 + of_int D] \<and>
           clock s = t0 + of_int D"
    using s(2,3,4,5) f(3,4,5) D by (simp add: new_thread_def)
  have second: "\<exists>s. start n ev (Some c) t0 ?tm = Done s \<and>
           trigger_count (self s) = 0 \<and> executed s = []"
    if c0: "t0 \<le> c" and c: "c < t0 + of_int D" for c
  proof -
    have c': "c \<le> clock (new_thread t0 ?tm) + of_nat (nat D)"
      using c D by (simp add: new_thread_def)
    from countdown_cancelled [OF f(2) m c'] obtain s where
      s: "run_countdown m (Some c) (new_thread t0 ?tm) = Done s"
         "trigger_count (self s) = trigger_count (self (new_thread t0 ?tm))"
         "executed s = executed (new_thread t0 ?tm)"
      by blast
    have "start n ev (Some c) t0 ?tm = Done s"
      using s(1) f(1) c0 by (simp add: start_def n new_thread_def)
    then show ?thesis using s(2,3) f(3) by (simp add: new_thread_def)
  qed
  from first second show ?thesis by blast
qed

text \<open>
  A countdown of 3 seconds with two actions, started at time 0: left alone it triggers
  once at time 3; stopped at time 2 it ends at time 2 without a trigger.
\<close>

theorem countdown_triggers_once_witness:
  "(0 :: int) \<le> 3 \<and>
   new_timer ''t'' COUNTDOWN (PDict [(''duration'', PInt 3)]) = Inr (countdown_timer ''t'' 3) \<and>
   dict_get (PDict [(''duration'', PInt 3)]) ''duration'' (PInt 0) = Inr (PInt 3) \<and>
   nat 3 + 1 < (6 :: nat) \<and>
   trigger_count (self (state_of
     (start 6 eval_fails None 0 (with_actions (countdown_timer ''t'' 3) [beep, notify])))) = 1 \<and>
   executed (state_of
     (start 6 eval_fails None 0 (with_actions (countdown_timer ''t'' 3) [beep, notify])))
     = [(''t'', beep), (''t'', notify)] \<and>
   triggered_at (state_of
     (start 6 eval_fails None 0 (with_actions (countdown_timer ''t'' 3) [beep, notify]))) = [3] \<and>
   clock (state_of
     (start 6 eval_fails None 0 (with_actions (countdown_timer ''t'' 3) [beep, notify]))) = 3 \<and>
   (0 :: rat) \<le> 2 \<and> (2 :: rat) < 0 + of_int 3 \<and>
   trigger_count (self (state_of
     (start 6 eval_fails (Some 2) 0 (with_actions (countdown_timer ''t'' 3) [beep, notify])))) = 0 \<and>
   clock (state_of
     (start 6 eval_fails (Some 2) 0 (with_actions (countdown_timer ''t'' 3) [beep, notify]))) = 2"
  using countdown_triggers_once
    [of 3 "''t''" "PDict [(''duration'', PInt 3)]" "countdown_timer ''t'' 3" 6 eval_fails 0
        "[beep, notify]"]
  by (simp add: countdown_timer_def new_timer_def init_timer_specifics_def blank_timer_def
      with_actions_def add_action_def start_def cleared_def new_thread_def numeral_nat is_set_def
      sleep_def trigger_def)

subsection \<open>Interval\<close>


lemma trigger_fields [simp]:
  "interval (self (trigger s)) = interval (self s)"
  "max_repeats (self (trigger s)) = max_repeats (self s)"
  "name (self (trigger s)) = name (self s)"
  "actions (self (trigger s)) = actions (self s)"
  "trigger_count (self (trigger s)) = Suc (trigger_count (self s))"
  "clock (trigger s) = clock s"
  "executed (trigger s) = executed s @ map (\<lambda>a. (name (self s), a)) (actions (self s))"
  by (simp_all add: trigger_def)







subsection \<open>Pomodoro\<close>

lemma pomodoro_timer_constructed:
  "new_timer nm POMODORO (pomodoro_config W B L C) = Inr (pomodoro_timer nm W B L C)"
  by (simp add: new_timer_def init_timer_specifics_def pomodoro_config_def pomodoro_timer_def
      blank_timer_def)

text \<open>
  Claim C4 fails for the threshold 0, where the code raises instead of taking the
  short break. The timer with work 2, break 1, long break 3 and
  \<^verbatim>\<open>cycles_until_long_break\<close> 0, never stopped: after the first work phase (one
  trigger, at time 2) the remainder \<^verbatim>\<open>self.current_cycle % 0\<close> raises
  \<^verbatim>\<open>ZeroDivisionError\<close>, \<^verbatim>\<open>_run\<close> prints it and the worker ends: no break phase
  follows and the phases do not alternate.
\<close>

theorem zero_threshold_ends_pomodoro:
  "start 5 eval_fails None 0 (pomodoro_timer ''p'' 2 1 3 0) =
     Done (state_of (start 5 eval_fails None 0 (pomodoro_timer ''p'' 2 1 3 0))) \<and>
   reports (state_of (start 5 eval_fails None 0 (pomodoro_timer ''p'' 2 1 3 0)))
     = [TimerError ''p'' ZeroDivisionError] \<and>
   trigger_count (self (state_of (start 5 eval_fails None 0 (pomodoro_timer ''p'' 2 1 3 0)))) = 1 \<and>
   clock (state_of (start 5 eval_fails None 0 (pomodoro_timer ''p'' 2 1 3 0))) = 2"
  by (simp add: pomodoro_timer_def blank_timer_def start_def cleared_def new_thread_def numeral_nat
      is_set_def phase_duration_def sleep_def trigger_def switch_period_def)

text \<open>
  For every threshold other than 0 the phases are as the claim says. One iteration of
  the loop of a timer that is never stopped is one completed phase of the length
  \<open>phase_length\<close>; the loop never ends; after \<open>n\<close> iterations it has triggered \<open>n\<close>
  times and the counter has moved once for every work phase among them.
\<close>

lemma phase_ticks_uncancelled:
  "phase_ticks k None s = (False, s\<lparr>clock := clock s + of_nat k\<rparr>)"
  by (induction k arbitrary: s) (simp_all add: is_set_def sleep_def algebra_simps)

lemma phase_duration_typed:
  assumes "pomodoro_typed t W B L C" and "C \<noteq> 0"
  shows "phase_duration t = Inr (PInt (phase_length t W B L C))"
  using assms
  by (auto simp: phase_duration_def pomodoro_typed_def phase_length_def break_length_def
      mod_eq_0_iff_dvd)

lemma pomodoro_one_phase:
  assumes "pomodoro_typed (self s) W B L C" and "C \<noteq> 0"
  shows "run_pomodoro (Suc n) None s =
         run_pomodoro n None (phase_step (phase_length (self s) W B L C) s)"
  using phase_duration_typed [OF assms]
  by (simp add: is_set_def phase_ticks_uncancelled phase_step_def)

lemma phase_step_fields:
  "pomodoro_typed (self (phase_step d s)) W B L C = pomodoro_typed (self s) W B L C"
  "trigger_count (self (phase_step d s)) = Suc (trigger_count (self s))"
  "is_work_period (self (phase_step d s)) = (\<not> is_work_period (self s))"
  "current_cycle (self (phase_step d s)) =
     (if is_work_period (self s) then current_cycle (self s) + 1 else current_cycle (self s))"
  "clock (phase_step d s) = clock s + of_nat (nat d)"
  "executed (phase_step d s) = executed s @ map (\<lambda>a. (name (self s), a)) (actions (self s))"
  by (simp_all add: phase_step_def switch_period_def trigger_def pomodoro_typed_def)

lemma pomodoro_never_ends:
  assumes "pomodoro_typed (self s) W B L C" and "C \<noteq> 0"
  shows "\<exists>s'. run_pomodoro n None s = Pending s' \<and>
           trigger_count (self s') = trigger_count (self s) + n \<and>
           current_cycle (self s') =
             current_cycle (self s) +
               int (if is_work_period (self s) then (n + 1) div 2 else n div 2) \<and>
           is_work_period (self s') = (is_work_period (self s) = even n)"
  using assms(1)
proof (induction n arbitrary: s)
  case 0
  show ?case by simp
next
  case (Suc n)
  let ?s = "phase_step (phase_length (self s) W B L C) s"
  have t: "pomodoro_typed (self ?s) W B L C" using Suc.prems by (simp add: phase_step_fields)
  from Suc.IH [OF t] obtain s' where s': "run_pomodoro n None ?s = Pending s'"
    "trigger_count (self s') = trigger_count (self ?s) + n"
    "current_cycle (self s') =
             current_cycle (self ?s) +
               int (if is_work_period (self ?s) then (n + 1) div 2 else n div 2)"
    "is_work_period (self s') = (is_work_period (self ?s) = even n)"
    by blast
  have "run_pomodoro (Suc n) None s = Pending s'"
    using pomodoro_one_phase [OF Suc.prems assms(2)] s'(1) by simp
  moreover have "trigger_count (self s') = trigger_count (self s) + Suc n"
    using s'(2) by (simp add: phase_step_fields)
  moreover have "current_cycle (self s') =
             current_cycle (self s) +
               int (if is_work_period (self s) then (Suc n + 1) div 2 else Suc n div 2)"
    using s'(3) by (simp add: phase_step_fields)
  moreover have "is_work_period (self s') = (is_work_period (self s) = even (Suc n))"
    using s'(4) by (auto simp add: phase_step_fields)
  ultimately show ?case by blast
qed

text \<open>
  Work 2, break 1, long break 3, threshold 2: the phases end at the times 2, 3, 5, 8,
  10, 11, so the long break follows the second work phase.
\<close>

lemma pomodoro_long_break_every_second_cycle:
  "clock (state_of (start 5 eval_fails None 0 (pomodoro_timer ''p'' 2 1 3 2))) = 8 \<and>
   clock (state_of (start 7 eval_fails None 0 (pomodoro_timer ''p'' 2 1 3 2))) = 11 \<and>
   trigger_count (self (state_of (start 7 eval_fails None 0 (pomodoro_timer ''p'' 2 1 3 2)))) = 6 \<and>
   current_cycle (self (state_of (start 7 eval_fails None 0 (pomodoro_timer ''p'' 2 1 3 2)))) = 3"
  by (simp add: pomodoro_timer_def blank_timer_def start_def cleared_def new_thread_def numeral_nat
      is_set_def phase_duration_def sleep_def trigger_def switch_period_def)

subsection \<open>Scheduled\<close>

lemma scheduled_timer_constructed:
  "new_timer nm SCHEDULED (scheduled_config ts days dt) = Inr (scheduled_timer nm ts days dt)"
  by (simp add: new_timer_def init_timer_specifics_def scheduled_config_def scheduled_timer_def
      blank_timer_def)












subsection \<open>Stopping a worker\<close>
































subsection \<open>Chain\<close>

lemma chain_timer_constructed:
  "new_timer nm CHAIN (chain_config specs) = Inr (chain_timer nm specs)"
  by (simp add: new_timer_def init_timer_specifics_def chain_config_def chain_timer_def
      blank_timer_def)











text \<open>
  How soon a stopped sub-timer ends is a matter of its own mode. The chain of one
  timer scheduled for Tuesdays, started on a Monday at midnight and stopped at time 1:
  the parent calls the sub-timer's \<^verbatim>\<open>stop()\<close> at its poll at time 1, joins it for one
  second and ends at time 2, while the sub-timer sleeps on until time 60.
\<close>

lemma chain_leaves_scheduled_sub_timer_running:
  "start 20 eval_fails (Some 1) 0 (chain_timer ''k'' [scheduled_spec [] [1]]) =
     Done (state_of (start 20 eval_fails (Some 1) 0 (chain_timer ''k'' [scheduled_spec [] [1]]))) \<and>
   clock (state_of (start 20 eval_fails (Some 1) 0 (chain_timer ''k'' [scheduled_spec [] [1]])))
     = 2 \<and>
   map summary (children (state_of
       (start 20 eval_fails (Some 1) 0 (chain_timer ''k'' [scheduled_spec [] [1]]))))
     = [(SCHEDULED, 0, 1, 60, 0)]"
  by (simp add: chain_timer_def scheduled_spec_def blank_timer_def start_def cleared_def
      new_thread_def numeral_nat is_set_def sleep_def trigger_def TimerType_of_def
      weekday_def today_def wrong_date_def new_timer_def init_timer_specifics_def
      stop_child_def log_child_def summary_def str_nat.simps)

subsection \<open>Saving and loading\<close>

text \<open>
  Claim C2 fails for the scheduled mode. The front end stores the marks of a
  scheduled timer as \<^verbatim>\<open>datetime.time\<close> objects in its configuration, and
  \<^verbatim>\<open>json.dump\<close> raises \<^verbatim>\<open>TypeError\<close> for them: the registry that holds the timer
  with the mark 09:00:00 is not saved, so nothing is there to load back.
\<close>

theorem scheduled_timer_is_not_saved:
  "save_to_file
     (snd (add_timer (scheduled_timer ''s'' [PTime 9 0 0] [0, 1, 2, 3, 4, 5, 6] None)
        (new_manager ()))) = Inl TypeError"
  by (simp add: save_to_file_def add_timer_def notify_callbacks_def new_manager_def
      scheduled_timer_def scheduled_config_def blank_timer_def timer_data_def date_value_def)

text \<open>
  For a registry that is saved, that is one whose configurations and parameters hold
  JSON values only, the claim holds: loading the document into a new registry gives,
  in the same order, engines registered under the same keys with the same name, mode,
  configuration and action sequence.
\<close>

lemma json_roundtrip_all:
  "(\<forall>j. json_dump v = Inr j \<longrightarrow> json_load j = v)"
  "(\<forall>js. json_dump_list xs = Inr js \<longrightarrow> json_load_list js = xs)"
  "(\<forall>kjs. json_dump_items kvs = Inr kjs \<longrightarrow> json_load_items kjs = kvs)"
  by (induction v and xs and kvs rule: json_dump_json_dump_list_json_dump_items.induct)
     (auto split: sum.splits)

lemma json_roundtrip: "json_dump v = Inr j \<Longrightarrow> json_load j = v"
  using json_roundtrip_all(1) by blast

lemma TimerType_of_value [simp]: "TimerType_of (PStr (TimerType_value ty)) = Inr ty"
  by (cases ty) (simp_all add: TimerType_of_def)

lemma ActionType_of_value [simp]: "ActionType_of (PStr (ActionType_value ty)) = Inr ty"
  by (cases ty) (simp_all add: ActionType_of_def)

lemma load_actions_saved:
  "load_actions (map action_data as) t = Inr (t\<lparr>actions := actions t @ as\<rparr>)"
  by (induction as arbitrary: t) (simp_all add: action_data_def add_action_def)

lemma new_timer_fields:
  "new_timer n ty cfg = Inr t0 \<Longrightarrow>
   name t0 = n \<and> timer_type t0 = ty \<and> config t0 = cfg \<and> actions t0 = []"
  by (cases ty)
     (auto simp: new_timer_def init_timer_specifics_def blank_timer_def split: sum.splits)

lemma load_entry_saved:
  assumes "constructible t" and "name t = k"
  shows "\<exists>t'. load_entry k (timer_data t) = Inr t' \<and> essence (k, t') = essence (k, t)"
proof -
  obtain t0 where t0: "new_timer k (timer_type t) (config t) = Inr t0"
    using assms by (auto simp: constructible_def split: sum.splits)
  from new_timer_fields [OF t0] have f: "name t0 = k" "timer_type t0 = timer_type t"
    "config t0 = config t" "actions t0 = []" by simp_all
  have "load_entry k (timer_data t) = Inr (t0\<lparr>actions := actions t0 @ actions t\<rparr>)"
    using t0 by (simp add: load_entry_def timer_data_def load_actions_saved)
  then show ?thesis using f assms(2) by (simp add: essence_def)
qed

lemma dict_set_new: "k \<notin> fst ` set kvs \<Longrightarrow> dict_set k v kvs = kvs @ [(k, v)]"
  by (induction kvs) auto

lemma load_entries_saved:
  assumes "distinct (map fst ts)" and "fst ` set ts \<inter> fst ` set (timers m) = {}"
    and "list_all (\<lambda>kv. name (snd kv) = fst kv \<and> constructible (snd kv)) ts"
  shows "map essence (timers (load_entries (map (\<lambda>kv. (fst kv, timer_data (snd kv))) ts) m))
         = map essence (timers m) @ map essence ts"
  using assms
proof (induction ts arbitrary: m)
  case Nil
  show ?case by simp
next
  case (Cons kv ts)
  obtain k t where kv: "kv = (k, t)" by (cases kv)
  have c: "constructible t" "name t = k" using Cons.prems(3) kv by simp_all
  from load_entry_saved [OF c] obtain t' where
    t': "load_entry k (timer_data t) = Inr t'" "essence (k, t') = essence (k, t)" by blast
  then have nm: "name t' = k" using c(2) by (simp add: essence_def)
  have new: "k \<notin> fst ` set (timers m)" using Cons.prems(2) kv by auto
  let ?m = "snd (add_timer t' m)"
  have tm: "timers ?m = timers m @ [(k, t')]"
    using new nm by (simp add: add_timer_def notify_callbacks_def dict_set_new)
  have d: "distinct (map fst ts)" using Cons.prems(1) by simp
  have dj: "fst ` set ts \<inter> fst ` set (timers ?m) = {}"
    using Cons.prems(1,2) kv tm by auto
  have al: "list_all (\<lambda>kv. name (snd kv) = fst kv \<and> constructible (snd kv)) ts"
    using Cons.prems(3) by simp
  from Cons.IH [OF d dj al] show ?case using t' tm kv by simp
qed

lemma save_load_roundtrip:
  assumes "save_to_file m = Inr doc" and "distinct (map fst (timers m))"
    and "list_all (\<lambda>kv. name (snd kv) = fst kv \<and> constructible (snd kv)) (timers m)"
  shows "map essence (timers (load_from_file doc (new_manager w))) = map essence (timers m)"
proof -
  have "json_load doc = PDict (map (\<lambda>kv. (fst kv, timer_data (snd kv))) (timers m))"
    using assms(1) json_roundtrip by (simp add: save_to_file_def)
  moreover have "fst ` set (timers m) \<inter> fst ` set (timers (new_manager w)) = {}"
    by (simp add: new_manager_def)
  ultimately show ?thesis
    using load_entries_saved [OF assms(2) _ assms(3), of "new_manager w"]
    by (simp add: load_from_file_def new_manager_def)
qed

end
